theory Spec2Isabelle
  imports Main "HOL-Library.AList" "HOL-Library.Sublist"
begin

section \<open>Errors\<close>

text \<open>
  Go error values of package \<open>cfg\<close>. \<open>ErrIdpAccountNotFound\<close> is the package-level
  variable of the source: it is compared by identity, so it is a constructor of its own
  and differs from every error allocated later, also from one with the same message.
  \<open>New msg\<close> is \<open>errors.New(msg)\<close>, \<open>Wrap err msg\<close> is \<open>errors.Wrap(err, msg)\<close>, and
  \<open>Foreign msg\<close> is an error handed back by a collaborator (the ini store, the home
  directory resolver, the URL parser). \<open>nil\<close> is \<open>None\<close> of \<open>error option\<close>.
\<close>

datatype error =
    ErrIdpAccountNotFound
  | New string
  | Wrap error string
  | Foreign string

fun Error :: "error \<Rightarrow> string" where
  "Error ErrIdpAccountNotFound = ''IDP account not found, run configure to set it up''"
| "Error (New msg) = msg"
| "Error (Wrap err msg) = msg @ '': '' @ Error err"
| "Error (Foreign msg) = msg"

definition IsErrIdpAccountNotFound :: "error option \<Rightarrow> bool" where
  "IsErrIdpAccountNotFound err = (err = Some ErrIdpAccountNotFound)"

section \<open>The account\<close>

definition DefaultConfigPath :: string where
  "DefaultConfigPath = ''~/.saml2aws''"

definition DefaultAmazonWebservicesURN :: string where
  "DefaultAmazonWebservicesURN = ''urn:amazon:webservices''"

definition DefaultSessionDuration :: int where
  "DefaultSessionDuration = 3600"

definition DefaultProfile :: string where
  "DefaultProfile = ''saml''"

text \<open>
  The struct \<open>IDPAccount\<close>, fields in the order of the source. The two \<open>int\<close> fields are
  never used in arithmetic, so they are plain integers.
\<close>

record IDPAccount =
  AppID :: string
  URL :: string
  Username :: string
  Provider :: string
  MFA :: string
  SkipVerify :: bool
  Timeout :: int
  AmazonWebservicesURN :: string
  SessionDuration :: int
  Profile :: string
  Subdomain :: string
  RoleARN :: string

text \<open>\<open>NewIDPAccount\<close>: three fields set, the others at Go's zero values.\<close>

definition NewIDPAccount :: IDPAccount where
  "NewIDPAccount =
     \<lparr> AppID = [], URL = [], Username = [], Provider = [], MFA = [],
       SkipVerify = False, Timeout = 0,
       AmazonWebservicesURN = DefaultAmazonWebservicesURN,
       SessionDuration = DefaultSessionDuration,
       Profile = DefaultProfile,
       Subdomain = [], RoleARN = [] \<rparr>"

subsection \<open>Formatting of booleans and integers\<close>

text \<open>
  What \<open>fmt.Sprintf\<close> prints for a \<open>bool\<close> under \<open>%v\<close> and for an \<open>int\<close> under \<open>%d\<close>:
  \<open>true\<close> or \<open>false\<close>, and the decimal digits with a minus sign for a negative number.
\<close>

definition FormatBool :: "bool \<Rightarrow> string" where
  "FormatBool b = (if b then ''true'' else ''false'')"

definition digit_char :: "nat \<Rightarrow> char" where
  "digit_char d = ''0123456789'' ! d"

fun FormatUint :: "nat \<Rightarrow> string" where
  "FormatUint n =
     (if n < 10 then [digit_char n] else FormatUint (n div 10) @ [digit_char (n mod 10)])"

declare FormatUint.simps [simp del]

definition FormatInt :: "int \<Rightarrow> string" where
  "FormatInt i = (if i < 0 then CHR ''-'' # FormatUint (nat (- i)) else FormatUint (nat i))"

definition newline :: string where
  "newline = [CHR 0x0A]"

subsection \<open>Rendering\<close>

text \<open>The method \<open>String\<close> of \<open>IDPAccount\<close>: the two format strings of the source.\<close>

definition IDPAccount_String :: "IDPAccount \<Rightarrow> string" where
  "IDPAccount_String ia =
     (let appID =
        (if Provider ia = ''OneLogin''
         then newline @ ''  AppID: '' @ AppID ia @ newline @ ''  Subdomain: '' @ Subdomain ia
         else [])
      in ''account {'' @ appID @ newline @
         ''  URL: '' @ URL ia @ newline @
         ''  Username: '' @ Username ia @ newline @
         ''  Provider: '' @ Provider ia @ newline @
         ''  MFA: '' @ MFA ia @ newline @
         ''  SkipVerify: '' @ FormatBool (SkipVerify ia) @ newline @
         ''  AmazonWebservicesURN: '' @ AmazonWebservicesURN ia @ newline @
         ''  SessionDuration: '' @ FormatInt (SessionDuration ia) @ newline @
         ''  Profile: '' @ Profile ia @ newline @
         ''  RoleARN: '' @ RoleARN ia @ newline @
         ''}'')"

subsection \<open>Validation\<close>

text \<open>
  \<open>Validate\<close>. \<open>url.Parse\<close> belongs to Go's standard library; it is the parameter
  \<open>url_Parse\<close>, of which \<open>Validate\<close> only asks whether it returned an error.
\<close>

definition Validate :: "(string \<Rightarrow> error + 'u) \<Rightarrow> IDPAccount \<Rightarrow> error option" where
  "Validate url_Parse ia =
     (case (if Provider ia = ''OneLogin''
            then (if AppID ia = [] then Some (New ''app ID empty in idp account'')
                  else if Subdomain ia = [] then Some (New ''subdomain empty in idp account'')
                  else None)
            else None) of
        Some err \<Rightarrow> Some err
      | None \<Rightarrow>
          if URL ia = [] then Some (New ''URL empty in idp account'')
          else (case url_Parse (URL ia) of
                  Inl err \<Rightarrow> Some (New ''URL parse failed'')
                | Inr u \<Rightarrow>
                    if Provider ia = [] then Some (New ''Provider empty in idp account'')
                    else if MFA ia = [] then Some (New ''MFA empty in idp account'')
                    else if Profile ia = [] then Some (New ''Profile empty in idp account'')
                    else None))"

subsection \<open>The rules of validation, as the specification lists them\<close>

text \<open>
  The seven rules in the order of the specification, each with its message; the result of
  validation is the message of the first rule that does not hold. This definition follows
  the specification and is compared with \<open>Validate\<close> below.
\<close>

definition validation_rules :: "(string \<Rightarrow> error + 'u) \<Rightarrow> IDPAccount \<Rightarrow> (bool \<times> string) list" where
  "validation_rules url_Parse ia =
     [ (Provider ia = ''OneLogin'' \<longrightarrow> AppID ia \<noteq> [], ''app ID empty in idp account''),
       (Provider ia = ''OneLogin'' \<longrightarrow> Subdomain ia \<noteq> [], ''subdomain empty in idp account''),
       (URL ia \<noteq> [], ''URL empty in idp account''),
       (\<not> isl (url_Parse (URL ia)), ''URL parse failed''),
       (Provider ia \<noteq> [], ''Provider empty in idp account''),
       (MFA ia \<noteq> [], ''MFA empty in idp account''),
       (Profile ia \<noteq> [], ''Profile empty in idp account'') ]"

fun first_violated :: "(bool \<times> string) list \<Rightarrow> error option" where
  "first_violated [] = None"
| "first_violated ((holds, msg) # rules) = (if holds then first_violated rules else Some (New msg))"

section \<open>The configuration manager\<close>

record ConfigManager =
  configPath :: string

text \<open>
  \<open>NewConfigManager\<close>. \<open>homedir.Expand\<close> is a collaborator outside the repository; it
  is the parameter \<open>Expand\<close>. The function neither reads nor returns the file system.
\<close>

definition NewConfigManager :: "(string \<Rightarrow> error + string) \<Rightarrow> string \<Rightarrow> error + ConfigManager" where
  "NewConfigManager Expand configFile =
     (let configFile = (if configFile = [] then DefaultConfigPath else configFile)
      in case Expand configFile of
           Inl err \<Rightarrow> Inl err
         | Inr path \<Rightarrow> Inr \<lparr> configPath = path \<rparr>)"

text \<open>
  Modelled from the spec: the home-directory resolver (\<open>homedir.Expand\<close>, not part of the
  repository), as section 6 states it: it expands a leading \<open>~\<close> of a path to the current
  user's home directory and fails if the home directory cannot be determined. \<open>home\<close> is
  the home directory, \<open>None\<close> when it cannot be determined. It is only used to instantiate
  the parameter \<open>Expand\<close> at concrete inputs.
\<close>

definition homedir_Expand :: "string option \<Rightarrow> string \<Rightarrow> error + string" where
  "homedir_Expand home path =
     (case path of
        [] \<Rightarrow> Inr path
      | c # rest \<Rightarrow>
          if c \<noteq> CHR ''~'' then Inr path
          else (case home of
                  None \<Rightarrow> Inl (Foreign ''home directory cannot be determined'')
                | Some dir \<Rightarrow> Inr (dir @ rest)))"

section \<open>The key-value store\<close>

text \<open>
  Modelled from the spec: the structured key-value store (package \<open>ini\<close>, not part of the
  repository), as sections 4.2 and 6 state it. A section is a list of keys with their text
  values, a document a list of named sections, both in file order. A file is missing, or
  cannot be parsed, or holds a document; writing a document and loading it again gives the
  document back. A file system gives each path its file and says whether it can be
  written.
\<close>

type_synonym ini_Section = "(string \<times> string) list"

type_synonym ini_File = "(string \<times> ini_Section) list"

text \<open>
  Modelled from the spec: what a path holds: no file, a file that cannot be parsed, or a
  document.
\<close>

datatype disk_file = Missing | Malformed | Stored ini_File

text \<open>
  Modelled from the spec: the file system, as far as the store reads and writes it.
\<close>

record filesystem =
  files :: "string \<Rightarrow> disk_file"
  writable :: "string \<Rightarrow> bool"

text \<open>
  Modelled from the spec: load-document(path, tolerateMissing), called as
  \<open>ini.LoadSources\<close> with \<open>Loose: true\<close>: a missing file is the empty document, a file
  that cannot be parsed is an error.
\<close>

definition LoadSources :: "filesystem \<Rightarrow> string \<Rightarrow> error + ini_File" where
  "LoadSources fs path =
     (case files fs path of
        Missing \<Rightarrow> Inr []
      | Malformed \<Rightarrow> Inl (Foreign ''unable to parse the data source'')
      | Stored cfg \<Rightarrow> Inr cfg)"

text \<open>
  Modelled from the spec: document.getOrCreateSection(name), for reading (\<open>cfg.Section\<close>):
  the section of that name, empty when the document has none.
\<close>

definition Section :: "ini_File \<Rightarrow> string \<Rightarrow> ini_Section" where
  "Section cfg name = (case map_of cfg name of None \<Rightarrow> [] | Some sec \<Rightarrow> sec)"

text \<open>
  Modelled from the spec: document.getOrCreateSection(name), for writing
  (\<open>cfg.NewSection\<close>): the document keeps a section it already has under that name and
  gets an empty one at its end otherwise. Save takes a non-empty name; the error branch of
  the source is reached with the empty one.
\<close>

definition NewSection :: "ini_File \<Rightarrow> string \<Rightarrow> error + ini_File" where
  "NewSection cfg name =
     (if name = [] then Inl (Foreign ''empty section name'')
      else (case map_of cfg name of
              None \<Rightarrow> Inr (cfg @ [(name, [])])
            | Some sec \<Rightarrow> Inr cfg))"

text \<open>
  The field-key table: the \<open>ini\<close> tags of the struct in the source, in field order, each
  with the text of the field's value.
\<close>

definition field_table :: "IDPAccount \<Rightarrow> (string \<times> string) list" where
  "field_table account =
     [ (''app_id'', AppID account),
       (''url'', URL account),
       (''username'', Username account),
       (''provider'', Provider account),
       (''mfa'', MFA account),
       (''skip_verify'', FormatBool (SkipVerify account)),
       (''timeout'', FormatInt (Timeout account)),
       (''aws_urn'', AmazonWebservicesURN account),
       (''aws_session_duration'', FormatInt (SessionDuration account)),
       (''aws_profile'', Profile account),
       (''subdomain'', Subdomain account),
       (''role_arn'', RoleARN account) ]"

text \<open>
  Modelled from the spec: section.writeFrom(sourceStruct) (\<open>newSec.ReflectFrom\<close>): every
  field of the table is written under its key, replacing the value of a key the section
  already has. The section is the one named \<open>name\<close> of the document, which
  \<open>NewSection\<close> has made sure of.
\<close>

definition writeFrom :: "IDPAccount \<Rightarrow> ini_Section \<Rightarrow> ini_Section" where
  "writeFrom account sec = fold (\<lambda>(k, v). AList.update k v) (field_table account) sec"

text \<open>
  Modelled from the spec: \<open>newSec.ReflectFrom(account)\<close> on the section handle that
  \<open>NewSection\<close> returned: the section named \<open>name\<close> of the document is written from the
  account, in place. The spec gives it a failure (a field that cannot be mapped); no
  field of this struct has one.
\<close>

definition ReflectFrom :: "string \<Rightarrow> IDPAccount \<Rightarrow> ini_File \<Rightarrow> error + ini_File" where
  "ReflectFrom name account cfg =
     Inr (AList.update name (writeFrom account (Section cfg name)) cfg)"

text \<open>
  Modelled from the spec: the text of a value read back under the types of the field-key
  table, \<open>true\<close> and \<open>false\<close> for a boolean and decimal digits with an optional minus
  sign for an integer, as the configuration file of section 6 shows them. First the
  boolean.
\<close>

definition ParseBool :: "string \<Rightarrow> bool option" where
  "ParseBool s = (if s = ''true'' then Some True else if s = ''false'' then Some False else None)"

text \<open>
  Modelled from the spec: the value of a decimal digit, \<open>None\<close> for any other character.
\<close>

definition digit_val :: "char \<Rightarrow> nat option" where
  "digit_val c = (let n = (of_char c :: nat) in if 48 \<le> n \<and> n < 58 then Some (n - 48) else None)"

text \<open>
  Modelled from the spec: the digits of an unsigned decimal number, read from the left.
\<close>

fun ParseUint_acc :: "nat \<Rightarrow> string \<Rightarrow> nat option" where
  "ParseUint_acc acc [] = Some acc"
| "ParseUint_acc acc (c # cs) =
     (case digit_val c of None \<Rightarrow> None | Some d \<Rightarrow> ParseUint_acc (acc * 10 + d) cs)"

text \<open>
  Modelled from the spec: an unsigned decimal number has at least one digit.
\<close>

definition ParseUint :: "string \<Rightarrow> nat option" where
  "ParseUint s = (if s = [] then None else ParseUint_acc 0 s)"

text \<open>
  Modelled from the spec: a decimal integer, with an optional minus sign in front.
\<close>

definition ParseInt :: "string \<Rightarrow> int option" where
  "ParseInt s =
     (case s of
        [] \<Rightarrow> None
      | c # rest \<Rightarrow>
          if c = CHR ''-'' then map_option (\<lambda>n. - int n) (ParseUint rest)
          else map_option int (ParseUint s))"

text \<open>
  Modelled from the spec: section.readInto(targetStruct) (\<open>sec.MapTo\<close>): the values
  present in the section are laid over the target, a field whose key is absent keeps the
  target's value, keys outside the table are ignored. Load fails only when the file cannot
  be parsed, so a value that is not the text of a boolean or of an integer leaves the
  field as it is.
\<close>

definition setString :: "ini_Section \<Rightarrow> string \<Rightarrow> string \<Rightarrow> string" where
  "setString sec key old = (case map_of sec key of None \<Rightarrow> old | Some v \<Rightarrow> v)"

text \<open>
  Modelled from the spec: the overlay of a boolean field.
\<close>

definition setBool :: "ini_Section \<Rightarrow> string \<Rightarrow> bool \<Rightarrow> bool" where
  "setBool sec key old =
     (case map_of sec key of
        None \<Rightarrow> old
      | Some v \<Rightarrow> (case ParseBool v of None \<Rightarrow> old | Some b \<Rightarrow> b))"

text \<open>
  Modelled from the spec: the overlay of an integer field.
\<close>

definition setInt :: "ini_Section \<Rightarrow> string \<Rightarrow> int \<Rightarrow> int" where
  "setInt sec key old =
     (case map_of sec key of
        None \<Rightarrow> old
      | Some v \<Rightarrow> (case ParseInt v of None \<Rightarrow> old | Some i \<Rightarrow> i))"

text \<open>
  Modelled from the spec: the overlay of the twelve fields, each under its key of the
  field-key table.
\<close>

definition MapTo :: "ini_Section \<Rightarrow> IDPAccount \<Rightarrow> error + IDPAccount" where
  "MapTo sec account =
     Inr \<lparr> AppID = setString sec ''app_id'' (AppID account),
           URL = setString sec ''url'' (URL account),
           Username = setString sec ''username'' (Username account),
           Provider = setString sec ''provider'' (Provider account),
           MFA = setString sec ''mfa'' (MFA account),
           SkipVerify = setBool sec ''skip_verify'' (SkipVerify account),
           Timeout = setInt sec ''timeout'' (Timeout account),
           AmazonWebservicesURN = setString sec ''aws_urn'' (AmazonWebservicesURN account),
           SessionDuration = setInt sec ''aws_session_duration'' (SessionDuration account),
           Profile = setString sec ''aws_profile'' (Profile account),
           Subdomain = setString sec ''subdomain'' (Subdomain account),
           RoleARN = setString sec ''role_arn'' (RoleARN account) \<rparr>"

text \<open>
  Modelled from the spec: document.saveTo(path) (\<open>cfg.SaveTo\<close>): the whole file is
  rewritten with the document; it fails, leaving the file as it was, when the path cannot
  be written.
\<close>

definition SaveTo :: "ini_File \<Rightarrow> string \<Rightarrow> filesystem \<Rightarrow> error + filesystem" where
  "SaveTo cfg path fs =
     (if writable fs path then Inr (fs\<lparr> files := (files fs)(path := Stored cfg) \<rparr>)
      else Inl (Foreign ''unable to write the data source''))"

section \<open>Saving and loading accounts\<close>

text \<open>
  The functions of the source over the store. The file system is passed explicitly:
  \<open>SaveIDPAccount\<close> returns the error (\<open>None\<close> is \<open>nil\<close>) and the file system it leaves.
\<close>

definition SaveIDPAccount ::
  "(string \<Rightarrow> error + 'u) \<Rightarrow> ConfigManager \<Rightarrow> string \<Rightarrow> IDPAccount \<Rightarrow> filesystem
     \<Rightarrow> error option \<times> filesystem" where
  "SaveIDPAccount url_Parse cm idpAccountName account fs =
     (case Validate url_Parse account of
        Some err \<Rightarrow> (Some (Wrap err ''Account validation failed''), fs)
      | None \<Rightarrow>
          (case LoadSources fs (configPath cm) of
             Inl err \<Rightarrow> (Some (Wrap err ''Unable to load configuration file''), fs)
           | Inr cfg \<Rightarrow>
               (case NewSection cfg idpAccountName of
                  Inl err \<Rightarrow>
                    (Some (Wrap err ''Unable to build a new section in configuration file''), fs)
                | Inr cfg1 \<Rightarrow>
                    (case ReflectFrom idpAccountName account cfg1 of
                       Inl err \<Rightarrow>
                         (Some (Wrap err ''Unable to save account to configuration file''), fs)
                     | Inr cfg2 \<Rightarrow>
                         (case SaveTo cfg2 (configPath cm) fs of
                            Inl err \<Rightarrow> (Some (Wrap err ''Failed to save configuration file''), fs)
                          | Inr fs' \<Rightarrow> (None, fs'))))))"

definition readAccount :: "string \<Rightarrow> ini_File \<Rightarrow> error + IDPAccount" where
  "readAccount idpAccountName cfg =
     (let account = NewIDPAccount;
          sec = Section cfg idpAccountName
      in case MapTo sec account of
           Inl err \<Rightarrow> Inl (Wrap err ''Unable to map account'')
         | Inr account' \<Rightarrow> Inr account')"

definition LoadIDPAccount :: "ConfigManager \<Rightarrow> string \<Rightarrow> filesystem \<Rightarrow> error + IDPAccount" where
  "LoadIDPAccount cm idpAccountName fs =
     (case LoadSources fs (configPath cm) of
        Inl err \<Rightarrow> Inl (Wrap err ''Unable to load configuration file'')
      | Inr cfg \<Rightarrow> readAccount idpAccountName cfg)"

text \<open>\<open>reflect.DeepEqual\<close> on two accounts compares them field by field.\<close>

definition LoadVerifyIDPAccount :: "ConfigManager \<Rightarrow> string \<Rightarrow> filesystem \<Rightarrow> error + IDPAccount" where
  "LoadVerifyIDPAccount cm idpAccountName fs =
     (case LoadSources fs (configPath cm) of
        Inl err \<Rightarrow> Inl (Wrap err ''Unable to load configuration file'')
      | Inr cfg \<Rightarrow>
          (case readAccount idpAccountName cfg of
             Inl err \<Rightarrow> Inl (Wrap err ''Unable to read idp account'')
           | Inr account \<Rightarrow>
               if account = NewIDPAccount then Inl ErrIdpAccountNotFound
               else Inr account))"

section \<open>Auxiliary facts\<close>

subsection \<open>Reading back the text of an integer or a boolean\<close>

lemma digit_val_digit_char: "d < 10 \<Longrightarrow> digit_val (digit_char d) = Some d"
proof -
  assume "d < 10"
  then have "d = 0 \<or> d = 1 \<or> d = 2 \<or> d = 3 \<or> d = 4 \<or> d = 5 \<or> d = 6 \<or> d = 7 \<or> d = 8 \<or> d = 9"
    by arith
  then show ?thesis
    by (elim disjE) (simp_all add: digit_char_def digit_val_def)
qed

lemma ParseUint_acc_snoc:
  "d < 10 \<Longrightarrow> ParseUint_acc acc (cs @ [digit_char d]) =
     map_option (\<lambda>n. n * 10 + d) (ParseUint_acc acc cs)"
  by (induction cs arbitrary: acc) (auto simp: digit_val_digit_char split: option.splits)

lemma ParseUint_acc_FormatUint: "ParseUint_acc 0 (FormatUint n) = Some n"
proof (induction n rule: FormatUint.induct)
  case (1 n)
  show ?case
  proof (cases "n < 10")
    case True
    then show ?thesis by (subst FormatUint.simps) (simp add: digit_val_digit_char)
  next
    case False
    then have "ParseUint_acc 0 (FormatUint (n div 10)) = Some (n div 10)"
      using 1 by simp
    then show ?thesis
      using False by (subst FormatUint.simps) (simp add: ParseUint_acc_snoc)
  qed
qed

lemma FormatUint_nonempty: "FormatUint n \<noteq> []"
  by (subst FormatUint.simps) simp

lemma ParseUint_FormatUint: "ParseUint (FormatUint n) = Some n"
  by (simp add: ParseUint_def FormatUint_nonempty ParseUint_acc_FormatUint)

lemma digit_val_minus: "digit_val (CHR ''-'') = None"
  by (simp add: digit_val_def)

lemma hd_FormatUint: "hd (FormatUint n) \<noteq> CHR ''-''"
proof
  assume h: "hd (FormatUint n) = CHR ''-''"
  obtain c cs where cs: "FormatUint n = c # cs"
    using FormatUint_nonempty [of n] by (cases "FormatUint n") auto
  have "ParseUint_acc 0 (FormatUint n) = None"
    using h cs by (simp add: digit_val_minus)
  then show False
    by (simp add: ParseUint_acc_FormatUint)
qed

lemma ParseInt_FormatInt: "ParseInt (FormatInt i) = Some i"
proof (cases "i < 0")
  case True
  then show ?thesis
    by (simp add: ParseInt_def FormatInt_def ParseUint_FormatUint)
next
  case False
  obtain c cs where cs: "FormatUint (nat i) = c # cs"
    using FormatUint_nonempty [of "nat i"] by (cases "FormatUint (nat i)") auto
  have "c \<noteq> CHR ''-''"
    using hd_FormatUint [of "nat i"] cs by simp
  then show ?thesis
    using False cs ParseUint_FormatUint [of "nat i"]
    by (simp add: ParseInt_def FormatInt_def)
qed

lemma ParseBool_FormatBool: "ParseBool (FormatBool b) = Some b"
  by (simp add: ParseBool_def FormatBool_def)

subsection \<open>Writing an account into a section and reading it back\<close>

lemma map_of_fold_update:
  "map_of (fold (\<lambda>(k, v). AList.update k v) kvs sec) = map_of sec ++ map_of (rev kvs)"
proof (induction kvs arbitrary: sec)
  case Nil
  show ?case by simp
next
  case (Cons kv kvs)
  obtain k v where kv: "kv = (k, v)" by (cases kv)
  have "map_of (fold (\<lambda>(k, v). AList.update k v) (kv # kvs) sec) =
        map_of (AList.update k v sec) ++ map_of (rev kvs)"
    using Cons.IH [of "AList.update k v sec"] kv by simp
  also have "\<dots> = map_of sec ++ map_of (rev (kv # kvs))"
    by (simp add: kv update_conv' map_add_upd_left)
  finally show ?case .
qed

lemma fold_update_triv:
  "(\<And>k v. (k, v) \<in> set kvs \<Longrightarrow> map_of sec k = Some v) \<Longrightarrow>
   fold (\<lambda>(k, v). AList.update k v) kvs sec = sec"
proof (induction kvs)
  case Nil
  show ?case by simp
next
  case (Cons kv kvs)
  obtain k v where kv: "kv = (k, v)" by (cases kv)
  have "map_of sec k = Some v"
    using Cons.prems [of k v] kv by simp
  then have "AList.update k v sec = sec"
    by (rule update_triv)
  then show ?case
    using Cons kv by simp
qed

lemma distinct_field_table: "distinct (map fst (field_table account))"
  by (simp add: field_table_def)

lemma map_of_writeFrom:
  "map_of (writeFrom account sec) = map_of sec ++ map_of (rev (field_table account))"
  by (simp add: writeFrom_def map_of_fold_update)

lemma writeFrom_lookup:
  assumes "(k, v) \<in> set (field_table account)"
  shows "map_of (writeFrom account sec) k = Some v"
proof -
  have "distinct (map fst (rev (field_table account)))"
    using distinct_field_table [of account] by (simp add: rev_map [symmetric])
  moreover have "(k, v) \<in> set (rev (field_table account))"
    using assms by simp
  ultimately have "map_of (rev (field_table account)) k = Some v"
    by (rule map_of_is_SomeI)
  then show ?thesis
    by (simp add: map_of_writeFrom)
qed

lemma writeFrom_idem: "writeFrom account (writeFrom account sec) = writeFrom account sec"
proof -
  have "fold (\<lambda>(k, v). AList.update k v) (field_table account) (writeFrom account sec) =
        writeFrom account sec"
    by (rule fold_update_triv) (rule writeFrom_lookup)
  then show ?thesis
    by (simp add: writeFrom_def)
qed

lemma MapTo_writeFrom: "MapTo (writeFrom P sec) account = Inr P"
proof -
  have s: "\<And>k v old. (k, v) \<in> set (field_table P) \<Longrightarrow> setString (writeFrom P sec) k old = v"
    by (simp add: setString_def writeFrom_lookup)
  have b: "\<And>k v old. (k, FormatBool v) \<in> set (field_table P) \<Longrightarrow> setBool (writeFrom P sec) k old = v"
    by (simp add: setBool_def writeFrom_lookup ParseBool_FormatBool)
  have i: "\<And>k v old. (k, FormatInt v) \<in> set (field_table P) \<Longrightarrow> setInt (writeFrom P sec) k old = v"
    by (simp add: setInt_def writeFrom_lookup ParseInt_FormatInt)
  have "MapTo (writeFrom P sec) account =
        Inr \<lparr> AppID = AppID P, URL = URL P, Username = Username P, Provider = Provider P,
              MFA = MFA P, SkipVerify = SkipVerify P, Timeout = Timeout P,
              AmazonWebservicesURN = AmazonWebservicesURN P,
              SessionDuration = SessionDuration P, Profile = Profile P,
              Subdomain = Subdomain P, RoleARN = RoleARN P \<rparr>"
    unfolding MapTo_def
    by (simp add: s b i field_table_def)
  then show ?thesis by simp
qed

subsection \<open>Saving, then loading\<close>

lemma Section_update: "Section (AList.update name sec cfg) name = sec"
  by (simp add: Section_def update_conv')

lemma readAccount_update:
  "readAccount name (AList.update name (writeFrom P sec) cfg) = Inr P"
  by (simp add: readAccount_def Section_update MapTo_writeFrom)

lemma NewSection_InrD:
  "NewSection cfg name = Inr cfg1 \<Longrightarrow> name \<noteq> []"
  by (auto simp: NewSection_def)

lemma SaveIDPAccount_NoneD:
  assumes "SaveIDPAccount url_Parse cm name P fs = (None, fs')"
  shows "\<exists>cfg1. Validate url_Parse P = None \<and> name \<noteq> [] \<and>
           writable fs (configPath cm) \<and>
           fs' = fs\<lparr> files := (files fs)(configPath cm :=
                   Stored (AList.update name (writeFrom P (Section cfg1 name)) cfg1)) \<rparr>"
  using assms
  by (auto simp: SaveIDPAccount_def ReflectFrom_def SaveTo_def
      split: option.splits sum.splits if_splits dest: NewSection_InrD)

lemma LoadSources_stored:
  "files fs path = Stored cfg \<Longrightarrow> LoadSources fs path = Inr cfg"
  by (simp add: LoadSources_def)

lemma SaveIDPAccount_then_Load:
  assumes "SaveIDPAccount url_Parse cm name P fs = (None, fs')"
  shows "LoadIDPAccount cm name fs' = Inr P"
proof -
  obtain cfg1 where
    fs': "fs' = fs\<lparr> files := (files fs)(configPath cm :=
            Stored (AList.update name (writeFrom P (Section cfg1 name)) cfg1)) \<rparr>"
    using SaveIDPAccount_NoneD [OF assms] by blast
  have "LoadSources fs' (configPath cm) =
        Inr (AList.update name (writeFrom P (Section cfg1 name)) cfg1)"
    by (rule LoadSources_stored) (simp add: fs')
  then show ?thesis
    by (simp add: LoadIDPAccount_def readAccount_update)
qed

lemma SaveIDPAccount_succeeds:
  assumes "Validate url_Parse P = None" and "name \<noteq> []"
    and "files fs (configPath cm) \<noteq> Malformed" and "writable fs (configPath cm)"
  shows "fst (SaveIDPAccount url_Parse cm name P fs) = None"
  using assms
  by (cases "files fs (configPath cm)")
    (simp_all add: SaveIDPAccount_def LoadSources_def NewSection_def ReflectFrom_def
      SaveTo_def split: option.splits)

lemma SaveIDPAccount_again:
  assumes "SaveIDPAccount url_Parse cm name P fs = (None, fs')"
  shows "SaveIDPAccount url_Parse cm name P fs' = (None, fs')"
proof -
  obtain cfg1 where v: "Validate url_Parse P = None" and n: "name \<noteq> []"
    and w: "writable fs (configPath cm)"
    and fs': "fs' = fs\<lparr> files := (files fs)(configPath cm :=
            Stored (AList.update name (writeFrom P (Section cfg1 name)) cfg1)) \<rparr>"
    using SaveIDPAccount_NoneD [OF assms] by blast
  define cfg2 where "cfg2 = AList.update name (writeFrom P (Section cfg1 name)) cfg1"
  have l: "LoadSources fs' (configPath cm) = Inr cfg2"
    by (rule LoadSources_stored) (simp add: fs' cfg2_def)
  have m: "map_of cfg2 name = Some (writeFrom P (Section cfg1 name))"
    by (simp add: cfg2_def update_conv')
  then have ns: "NewSection cfg2 name = Inr cfg2"
    using n by (simp add: NewSection_def)
  have "Section cfg2 name = writeFrom P (Section cfg1 name)"
    using m by (simp add: Section_def)
  then have "AList.update name (writeFrom P (Section cfg2 name)) cfg2 = cfg2"
    using m by (simp add: writeFrom_idem update_triv)
  then have r: "ReflectFrom name P cfg2 = Inr cfg2"
    by (simp add: ReflectFrom_def)
  have "files fs' (configPath cm) = Stored cfg2"
    by (simp add: fs' cfg2_def)
  then have "fs'\<lparr> files := (files fs')(configPath cm := Stored cfg2) \<rparr> = fs'"
    by (simp add: fun_upd_idem)
  moreover have "writable fs' (configPath cm)"
    using w by (simp add: fs')
  ultimately have s: "SaveTo cfg2 (configPath cm) fs' = Inr fs'"
    by (simp add: SaveTo_def)
  show ?thesis
    by (simp add: SaveIDPAccount_def v l ns r s)
qed

lemma Validate_not_default:
  "Validate url_Parse P = None \<Longrightarrow> P \<noteq> NewIDPAccount"
  by (auto simp: Validate_def NewIDPAccount_def split: if_splits sum.splits)

lemma LoadVerify_of_Load:
  "LoadIDPAccount cm name fs = Inr a \<Longrightarrow>
   LoadVerifyIDPAccount cm name fs = (if a = NewIDPAccount then Inl ErrIdpAccountNotFound else Inr a)"
  by (auto simp: LoadVerifyIDPAccount_def LoadIDPAccount_def split: sum.splits)

lemma MapTo_empty: "MapTo [] account = Inr account"
  by (simp add: MapTo_def setString_def setBool_def setInt_def)

lemma readAccount_absent: "map_of cfg name = None \<Longrightarrow> readAccount name cfg = Inr NewIDPAccount"
  by (simp add: readAccount_def Section_def MapTo_empty)

subsection \<open>The rendered text as a sequence of lines\<close>

lemma sublist_concat_mem: "x \<in> set xss \<Longrightarrow> sublist x (concat xss)"
proof -
  assume "x \<in> set xss"
  then obtain ys zs where "xss = ys @ x # zs"
    by (auto dest: split_list)
  then have "concat xss = concat ys @ x @ concat zs"
    by simp
  then show ?thesis
    by (simp add: sublist_def) blast
qed

lemma IDPAccount_String_segments:
  "IDPAccount_String ia =
     concat [ ''account {'' @
                (if Provider ia = ''OneLogin''
                 then newline @ ''  AppID: '' @ AppID ia @ newline @ ''  Subdomain: '' @ Subdomain ia
                 else []) @ newline,
              ''  URL: '' @ URL ia @ newline,
              ''  Username: '' @ Username ia @ newline,
              ''  Provider: '' @ Provider ia @ newline,
              ''  MFA: '' @ MFA ia @ newline,
              ''  SkipVerify: '' @ FormatBool (SkipVerify ia) @ newline,
              ''  AmazonWebservicesURN: '' @ AmazonWebservicesURN ia @ newline,
              ''  SessionDuration: '' @ FormatInt (SessionDuration ia) @ newline,
              ''  Profile: '' @ Profile ia @ newline,
              ''  RoleARN: '' @ RoleARN ia @ newline,
              ''}'' ]"
  by (simp add: IDPAccount_String_def)

section \<open>The default constructor\<close>

text \<open>
  C6. The default constructor takes no input and cannot fail (it is a constant); its
  result has awsURN ``urn:amazon:webservices'', sessionDuration 3600, profile ``saml'', and
  every other field at its zero value.
\<close>

theorem NewIDPAccount_fields:
  "AmazonWebservicesURN NewIDPAccount = ''urn:amazon:webservices'' \<and>
   SessionDuration NewIDPAccount = 3600 \<and>
   Profile NewIDPAccount = ''saml'' \<and>
   AppID NewIDPAccount = [] \<and> URL NewIDPAccount = [] \<and> Username NewIDPAccount = [] \<and>
   Provider NewIDPAccount = [] \<and> MFA NewIDPAccount = [] \<and>
   SkipVerify NewIDPAccount = False \<and> Timeout NewIDPAccount = 0 \<and>
   Subdomain NewIDPAccount = [] \<and> RoleARN NewIDPAccount = []"
  by (simp add: NewIDPAccount_def DefaultAmazonWebservicesURN_def
      DefaultSessionDuration_def DefaultProfile_def)


section \<open>Validation\<close>

text \<open>
  C2. For every profile, \<open>Validate\<close> returns success or the failure of exactly the first
  violated rule, in the fixed order and with the messages of the specification's list
  (\<open>validation_rules\<close>): app ID and subdomain for provider ``OneLogin'', then URL non-empty,
  URL parses, provider, MFA and profile non-empty. In particular a profile with provider
  ``OneLogin'' and an empty app ID fails with the app-ID-empty rule whatever its other
  fields are. This holds for every behaviour of the URL parser.
\<close>

theorem Validate_first_violated_rule:
  "Validate url_Parse ia = first_violated (validation_rules url_Parse ia) \<and>
   (Provider ia = ''OneLogin'' \<and> AppID ia = [] \<longrightarrow>
      Validate url_Parse ia = Some (New ''app ID empty in idp account''))"
  by (cases "url_Parse (URL ia)") (simp_all add: Validate_def validation_rules_def)

theorem Validate_first_violated_rule_witness:
  "Validate (\<lambda>u. Inl (Foreign ''invalid URL'') :: error + unit)
      (NewIDPAccount\<lparr> Provider := ''OneLogin'' \<rparr>) =
     Some (New ''app ID empty in idp account'') \<and>
   first_violated (validation_rules (\<lambda>u. Inl (Foreign ''invalid URL'') :: error + unit)
      (NewIDPAccount\<lparr> Provider := ''OneLogin'' \<rparr>)) =
     Some (New ''app ID empty in idp account'')"
proof -
  have p: "Provider (NewIDPAccount\<lparr> Provider := ''OneLogin'' \<rparr>) = ''OneLogin'' \<and>
           AppID (NewIDPAccount\<lparr> Provider := ''OneLogin'' \<rparr>) = []"
    by (simp add: NewIDPAccount_def)
  note t = Validate_first_violated_rule
      [of "\<lambda>u. Inl (Foreign ''invalid URL'') :: error + unit"
          "NewIDPAccount\<lparr> Provider := ''OneLogin'' \<rparr>"]
  have a: "Validate (\<lambda>u. Inl (Foreign ''invalid URL'') :: error + unit)
      (NewIDPAccount\<lparr> Provider := ''OneLogin'' \<rparr>) =
     first_violated (validation_rules (\<lambda>u. Inl (Foreign ''invalid URL'') :: error + unit)
      (NewIDPAccount\<lparr> Provider := ''OneLogin'' \<rparr>))"
    using t by (rule conjunct1)
  have b: "Validate (\<lambda>u. Inl (Foreign ''invalid URL'') :: error + unit)
      (NewIDPAccount\<lparr> Provider := ''OneLogin'' \<rparr>) =
     Some (New ''app ID empty in idp account'')"
    using t p by blast
  show ?thesis
    using b trans [OF a [symmetric] b] by (rule conjI)
qed

section \<open>Saving an invalid profile\<close>

text \<open>
  C4. For every profile for which \<open>Validate\<close> fails, \<open>SaveIDPAccount\<close> returns the
  validation error wrapped as ``Account validation failed'' around the message of the
  violated rule, and the file system it leaves is the one it was given: the configuration
  file is unchanged, and so is what loading the same name returns.
\<close>

theorem SaveIDPAccount_invalid_unchanged:
  assumes "Validate url_Parse P = Some err"
  shows "SaveIDPAccount url_Parse cm name P fs = (Some (Wrap err ''Account validation failed''), fs) \<and>
         (\<exists>msg. err = New msg \<and>
            Error (Wrap err ''Account validation failed'') = ''Account validation failed: '' @ msg) \<and>
         LoadIDPAccount cm name (snd (SaveIDPAccount url_Parse cm name P fs)) =
           LoadIDPAccount cm name fs"
proof -
  have s: "SaveIDPAccount url_Parse cm name P fs = (Some (Wrap err ''Account validation failed''), fs)"
    using assms by (simp add: SaveIDPAccount_def)
  have "\<exists>msg. err = New msg"
    using assms by (auto simp: Validate_def split: if_splits sum.splits)
  then have "\<exists>msg. err = New msg \<and>
      Error (Wrap err ''Account validation failed'') = ''Account validation failed: '' @ msg"
    by auto
  then show ?thesis
    using s by simp
qed

theorem SaveIDPAccount_invalid_unchanged_witness:
  "Validate (\<lambda>u. Inr ()) (NewIDPAccount\<lparr> URL := ''https://x.example/sso'', Provider := ''Ping'' \<rparr>) =
     Some (New ''MFA empty in idp account'') \<and>
   SaveIDPAccount (\<lambda>u. Inr ()) \<lparr> configPath = ''/cfg'' \<rparr> ''test''
       (NewIDPAccount\<lparr> URL := ''https://x.example/sso'', Provider := ''Ping'' \<rparr>)
       \<lparr> files = (\<lambda>p. Missing)(''/cfg'' := Stored
           [(''test'', [(''url'', ''https://x.example/sso''), (''provider'', ''Ping''), (''mfa'', ''Auto'')])]),
         writable = (\<lambda>p. True) \<rparr> =
     (Some (Wrap (New ''MFA empty in idp account'') ''Account validation failed''),
      \<lparr> files = (\<lambda>p. Missing)(''/cfg'' := Stored
           [(''test'', [(''url'', ''https://x.example/sso''), (''provider'', ''Ping''), (''mfa'', ''Auto'')])]),
         writable = (\<lambda>p. True) \<rparr>) \<and>
   LoadIDPAccount \<lparr> configPath = ''/cfg'' \<rparr> ''test''
       \<lparr> files = (\<lambda>p. Missing)(''/cfg'' := Stored
           [(''test'', [(''url'', ''https://x.example/sso''), (''provider'', ''Ping''), (''mfa'', ''Auto'')])]),
         writable = (\<lambda>p. True) \<rparr> =
     Inr (NewIDPAccount\<lparr> URL := ''https://x.example/sso'', Provider := ''Ping'', MFA := ''Auto'' \<rparr>)"
proof -
  have v: "Validate (\<lambda>u. Inr ()) (NewIDPAccount\<lparr> URL := ''https://x.example/sso'', Provider := ''Ping'' \<rparr>) =
     Some (New ''MFA empty in idp account'')"
    by (simp add: Validate_def NewIDPAccount_def)
  have l: "LoadIDPAccount \<lparr> configPath = ''/cfg'' \<rparr> ''test''
       \<lparr> files = (\<lambda>p. Missing)(''/cfg'' := Stored
           [(''test'', [(''url'', ''https://x.example/sso''), (''provider'', ''Ping''), (''mfa'', ''Auto'')])]),
         writable = (\<lambda>p. True) \<rparr> =
     Inr (NewIDPAccount\<lparr> URL := ''https://x.example/sso'', Provider := ''Ping'', MFA := ''Auto'' \<rparr>)"
    by (simp add: LoadIDPAccount_def LoadSources_def readAccount_def Section_def MapTo_def
        setString_def setBool_def setInt_def NewIDPAccount_def)
  show ?thesis
    using v l SaveIDPAccount_invalid_unchanged [OF v, THEN conjunct1]
    by simp
qed

section \<open>Loading with the existence check\<close>

text \<open>
  C3. \<open>LoadVerifyIDPAccount\<close> fails with the sentinel \<open>ErrIdpAccountNotFound\<close> exactly when
  the profile that \<open>LoadIDPAccount\<close> returns for that name equals, field by field, a freshly
  defaulted profile, and otherwise returns the loaded profile; \<open>IsErrIdpAccountNotFound\<close> is
  true for the sentinel and false for \<open>nil\<close> and for every other error value.
\<close>

theorem LoadVerifyIDPAccount_not_found:
  "(LoadVerifyIDPAccount cm name fs = Inl ErrIdpAccountNotFound \<longleftrightarrow>
      LoadIDPAccount cm name fs = Inr NewIDPAccount) \<and>
   (\<forall>account. LoadIDPAccount cm name fs = Inr account \<and> account \<noteq> NewIDPAccount \<longrightarrow>
      LoadVerifyIDPAccount cm name fs = Inr account) \<and>
   IsErrIdpAccountNotFound (Some ErrIdpAccountNotFound) \<and>
   \<not> IsErrIdpAccountNotFound None \<and>
   (\<forall>err. err \<noteq> ErrIdpAccountNotFound \<longrightarrow> \<not> IsErrIdpAccountNotFound (Some err))"
  by (auto simp: LoadVerifyIDPAccount_def LoadIDPAccount_def IsErrIdpAccountNotFound_def
      split: sum.splits)


theorem LoadVerifyIDPAccount_not_found_witness:
  "LoadIDPAccount \<lparr> configPath = ''/cfg'' \<rparr> ''work''
       \<lparr> files = (\<lambda>p. Missing)(''/cfg'' := Stored
           [(''work'', [(''provider'', ''Ping'')]),
            (''plain'', [(''skip_verify'', ''false''), (''timeout'', ''0''),
               (''aws_urn'', ''urn:amazon:webservices''), (''aws_session_duration'', ''3600''),
               (''aws_profile'', ''saml'')])]),
         writable = (\<lambda>p. True) \<rparr> =
     Inr (NewIDPAccount\<lparr> Provider := ''Ping'' \<rparr>) \<and>
   NewIDPAccount\<lparr> Provider := ''Ping'' \<rparr> \<noteq> NewIDPAccount \<and>
   LoadVerifyIDPAccount \<lparr> configPath = ''/cfg'' \<rparr> ''work''
       \<lparr> files = (\<lambda>p. Missing)(''/cfg'' := Stored
           [(''work'', [(''provider'', ''Ping'')]),
            (''plain'', [(''skip_verify'', ''false''), (''timeout'', ''0''),
               (''aws_urn'', ''urn:amazon:webservices''), (''aws_session_duration'', ''3600''),
               (''aws_profile'', ''saml'')])]),
         writable = (\<lambda>p. True) \<rparr> =
     Inr (NewIDPAccount\<lparr> Provider := ''Ping'' \<rparr>) \<and>
   LoadVerifyIDPAccount \<lparr> configPath = ''/cfg'' \<rparr> ''plain''
       \<lparr> files = (\<lambda>p. Missing)(''/cfg'' := Stored
           [(''work'', [(''provider'', ''Ping'')]),
            (''plain'', [(''skip_verify'', ''false''), (''timeout'', ''0''),
               (''aws_urn'', ''urn:amazon:webservices''), (''aws_session_duration'', ''3600''),
               (''aws_profile'', ''saml'')])]),
         writable = (\<lambda>p. True) \<rparr> =
     Inl ErrIdpAccountNotFound \<and>
   LoadVerifyIDPAccount \<lparr> configPath = ''/cfg'' \<rparr> ''ghost''
       \<lparr> files = (\<lambda>p. Missing)(''/cfg'' := Stored
           [(''work'', [(''provider'', ''Ping'')]),
            (''plain'', [(''skip_verify'', ''false''), (''timeout'', ''0''),
               (''aws_urn'', ''urn:amazon:webservices''), (''aws_session_duration'', ''3600''),
               (''aws_profile'', ''saml'')])]),
         writable = (\<lambda>p. True) \<rparr> =
     Inl ErrIdpAccountNotFound \<and>
   New ''IDP account not found, run configure to set it up'' \<noteq> ErrIdpAccountNotFound \<and>
   \<not> IsErrIdpAccountNotFound (Some (New ''IDP account not found, run configure to set it up''))"
proof -
  let ?cm = "\<lparr> configPath = ''/cfg'' \<rparr>"
  let ?fs = "\<lparr> files = (\<lambda>p. Missing)(''/cfg'' := Stored
           [(''work'', [(''provider'', ''Ping'')]),
            (''plain'', [(''skip_verify'', ''false''), (''timeout'', ''0''),
               (''aws_urn'', ''urn:amazon:webservices''), (''aws_session_duration'', ''3600''),
               (''aws_profile'', ''saml'')])]),
         writable = (\<lambda>p. True) \<rparr>"
  have w: "LoadIDPAccount ?cm ''work'' ?fs = Inr (NewIDPAccount\<lparr> Provider := ''Ping'' \<rparr>)"
    by (simp add: LoadIDPAccount_def LoadSources_def readAccount_def Section_def MapTo_def
        setString_def setBool_def setInt_def NewIDPAccount_def)
  have d: "NewIDPAccount\<lparr> Provider := ''Ping'' \<rparr> \<noteq> NewIDPAccount"
    by (simp add: NewIDPAccount_def)
  have p: "LoadIDPAccount ?cm ''plain'' ?fs = Inr NewIDPAccount"
    by (simp add: LoadIDPAccount_def LoadSources_def readAccount_def Section_def MapTo_def
        setString_def setBool_def setInt_def NewIDPAccount_def ParseBool_def ParseInt_def
        ParseUint_def digit_val_def DefaultAmazonWebservicesURN_def DefaultSessionDuration_def
        DefaultProfile_def)
  have g: "LoadIDPAccount ?cm ''ghost'' ?fs = Inr NewIDPAccount"
    by (simp add: LoadIDPAccount_def LoadSources_def readAccount_def Section_def MapTo_def
        setString_def setBool_def setInt_def NewIDPAccount_def)
  have n: "New ''IDP account not found, run configure to set it up'' \<noteq> ErrIdpAccountNotFound"
    by simp
  note t = LoadVerifyIDPAccount_not_found
  have 1: "LoadVerifyIDPAccount ?cm ''work'' ?fs = Inr (NewIDPAccount\<lparr> Provider := ''Ping'' \<rparr>)"
    using t [of ?cm "''work''" ?fs] w d by blast
  have 2: "LoadVerifyIDPAccount ?cm ''plain'' ?fs = Inl ErrIdpAccountNotFound"
    using t [of ?cm "''plain''" ?fs] p by blast
  have 4: "LoadVerifyIDPAccount ?cm ''ghost'' ?fs = Inl ErrIdpAccountNotFound"
    using t [of ?cm "''ghost''" ?fs] g by blast
  have 3: "\<not> IsErrIdpAccountNotFound (Some (New ''IDP account not found, run configure to set it up''))"
    using t [of ?cm "''plain''" ?fs] n by blast
  show ?thesis
    using w d 1 2 4 n 3 by (intro conjI)
qed

section \<open>Rendering\<close>

text \<open>
  C9. \<open>IDPAccount_String\<close> is a function of the profile alone. Its result is
  a multi-line text that contains, each on a line of its own with its label, the URL,
  the user name, the provider, the MFA, the skip-verify flag, the AWS URN, the session
  duration, the profile and the role ARN. When the provider is ``OneLogin'' the text begins
  with the block of app ID and subdomain; when it is not, the text begins with the URL line
  and does not depend on app ID and subdomain.
\<close>

theorem IDPAccount_String_contents:
  "sublist (''  URL: '' @ URL ia @ newline) (IDPAccount_String ia) \<and>
   sublist (''  Username: '' @ Username ia @ newline) (IDPAccount_String ia) \<and>
   sublist (''  Provider: '' @ Provider ia @ newline) (IDPAccount_String ia) \<and>
   sublist (''  MFA: '' @ MFA ia @ newline) (IDPAccount_String ia) \<and>
   sublist (''  SkipVerify: '' @ (if SkipVerify ia then ''true'' else ''false'') @ newline)
     (IDPAccount_String ia) \<and>
   sublist (''  AmazonWebservicesURN: '' @ AmazonWebservicesURN ia @ newline)
     (IDPAccount_String ia) \<and>
   sublist (''  SessionDuration: '' @ FormatInt (SessionDuration ia) @ newline)
     (IDPAccount_String ia) \<and>
   sublist (''  Profile: '' @ Profile ia @ newline) (IDPAccount_String ia) \<and>
   sublist (''  RoleARN: '' @ RoleARN ia @ newline) (IDPAccount_String ia) \<and>
   (Provider ia = ''OneLogin'' \<longrightarrow>
      prefix (''account {'' @ newline @ ''  AppID: '' @ AppID ia @ newline @
              ''  Subdomain: '' @ Subdomain ia @ newline @ ''  URL: '') (IDPAccount_String ia)) \<and>
   (Provider ia \<noteq> ''OneLogin'' \<longrightarrow>
      prefix (''account {'' @ newline @ ''  URL: '') (IDPAccount_String ia) \<and>
      IDPAccount_String (ia\<lparr> AppID := a, Subdomain := s \<rparr>) = IDPAccount_String ia)"
proof -
  note seg = IDPAccount_String_segments [of ia]
  have 1: "sublist (''  URL: '' @ URL ia @ newline) (IDPAccount_String ia)"
    by (subst seg, rule sublist_concat_mem) simp
  have 2: "sublist (''  Username: '' @ Username ia @ newline) (IDPAccount_String ia)"
    by (subst seg, rule sublist_concat_mem) simp
  have 3: "sublist (''  Provider: '' @ Provider ia @ newline) (IDPAccount_String ia)"
    by (subst seg, rule sublist_concat_mem) simp
  have 4: "sublist (''  MFA: '' @ MFA ia @ newline) (IDPAccount_String ia)"
    by (subst seg, rule sublist_concat_mem) simp
  have "sublist (''  SkipVerify: '' @ FormatBool (SkipVerify ia) @ newline) (IDPAccount_String ia)"
    by (subst seg, rule sublist_concat_mem) simp
  then have 5: "sublist (''  SkipVerify: '' @ (if SkipVerify ia then ''true'' else ''false'') @ newline)
     (IDPAccount_String ia)"
    by (simp only: FormatBool_def)
  have 6: "sublist (''  AmazonWebservicesURN: '' @ AmazonWebservicesURN ia @ newline)
     (IDPAccount_String ia)"
    by (subst seg, rule sublist_concat_mem) simp
  have 7: "sublist (''  SessionDuration: '' @ FormatInt (SessionDuration ia) @ newline)
     (IDPAccount_String ia)"
    by (subst seg, rule sublist_concat_mem) simp
  have 8: "sublist (''  Profile: '' @ Profile ia @ newline) (IDPAccount_String ia)"
    by (subst seg, rule sublist_concat_mem) simp
  have 9: "sublist (''  RoleARN: '' @ RoleARN ia @ newline) (IDPAccount_String ia)"
    by (subst seg, rule sublist_concat_mem) simp
  have 10: "Provider ia = ''OneLogin'' \<longrightarrow>
      prefix (''account {'' @ newline @ ''  AppID: '' @ AppID ia @ newline @
              ''  Subdomain: '' @ Subdomain ia @ newline @ ''  URL: '') (IDPAccount_String ia)"
    by (simp add: IDPAccount_String_def)
  have 11: "Provider ia \<noteq> ''OneLogin'' \<longrightarrow>
      prefix (''account {'' @ newline @ ''  URL: '') (IDPAccount_String ia) \<and>
      IDPAccount_String (ia\<lparr> AppID := a, Subdomain := s \<rparr>) = IDPAccount_String ia"
    by (simp add: IDPAccount_String_def)
  show ?thesis
    using 1 2 3 4 5 6 7 8 9 10 11 by (intro conjI)
qed


theorem IDPAccount_String_contents_witness:
  "Provider (NewIDPAccount\<lparr> AppID := ''123456'', Provider := ''OneLogin'', Subdomain := ''acme'' \<rparr>) =
     ''OneLogin'' \<and>
   prefix (''account {'' @ newline @ ''  AppID: 123456'' @ newline @
           ''  Subdomain: acme'' @ newline @ ''  URL: '')
     (IDPAccount_String
        (NewIDPAccount\<lparr> AppID := ''123456'', Provider := ''OneLogin'', Subdomain := ''acme'' \<rparr>)) \<and>
   Provider NewIDPAccount \<noteq> ''OneLogin'' \<and>
   prefix (''account {'' @ newline @ ''  URL: '') (IDPAccount_String NewIDPAccount) \<and>
   IDPAccount_String (NewIDPAccount\<lparr> AppID := ''123456'', Subdomain := ''acme'' \<rparr>) =
     IDPAccount_String NewIDPAccount"
proof -
  let ?P = "NewIDPAccount\<lparr> AppID := ''123456'', Provider := ''OneLogin'', Subdomain := ''acme'' \<rparr>"
  have p: "Provider ?P = ''OneLogin''"
    by simp
  have q: "Provider NewIDPAccount \<noteq> ''OneLogin''"
    by (simp add: NewIDPAccount_def)
  have 1: "prefix (''account {'' @ newline @ ''  AppID: 123456'' @ newline @
           ''  Subdomain: acme'' @ newline @ ''  URL: '') (IDPAccount_String ?P)"
    using IDPAccount_String_contents [of ?P] p by simp
  have 2: "prefix (''account {'' @ newline @ ''  URL: '') (IDPAccount_String NewIDPAccount) \<and>
      IDPAccount_String (NewIDPAccount\<lparr> AppID := ''123456'', Subdomain := ''acme'' \<rparr>) =
        IDPAccount_String NewIDPAccount"
    using IDPAccount_String_contents
        [where ia = NewIDPAccount and a = "''123456''" and s = "''acme''"] q
    by blast
  show ?thesis
    using p 1 q 2 by (intro conjI) blast+
qed

text \<open>
  The timeout is not rendered: a profile with timeout 5 renders as the default profile
  does, and the text of its timeout does not occur in the result.
\<close>

theorem IDPAccount_String_omits_Timeout:
  "\<not> sublist (FormatInt (Timeout (NewIDPAccount\<lparr> Timeout := 5 \<rparr>)))
       (IDPAccount_String (NewIDPAccount\<lparr> Timeout := 5 \<rparr>)) \<and>
   IDPAccount_String (NewIDPAccount\<lparr> Timeout := 5 \<rparr>) = IDPAccount_String NewIDPAccount"
  by (simp add: IDPAccount_String_def NewIDPAccount_def DefaultAmazonWebservicesURN_def
      DefaultSessionDuration_def DefaultProfile_def FormatBool_def FormatInt_def
      FormatUint.simps digit_char_def newline_def sublist_code prefix_code)

section \<open>Opening the store\<close>

text \<open>
  C7. \<open>NewConfigManager\<close> with an empty path binds the store to the default path
  \<open>~/.saml2aws\<close> as the home-directory resolver expands it, and with a non-empty path to
  that path as the resolver expands it; it fails exactly when the resolver fails, with the
  resolver's own error. It takes no file system and returns none: the file is not touched.
  This holds for every resolver \<open>Expand\<close>.
\<close>

theorem NewConfigManager_path:
  "NewConfigManager Expand [] = NewConfigManager Expand ''~/.saml2aws'' \<and>
   (\<forall>path. NewConfigManager Expand configFile = Inr \<lparr> configPath = path \<rparr> \<longleftrightarrow>
      Expand (if configFile = [] then ''~/.saml2aws'' else configFile) = Inr path) \<and>
   (\<forall>err. NewConfigManager Expand configFile = Inl err \<longleftrightarrow>
      Expand (if configFile = [] then ''~/.saml2aws'' else configFile) = Inl err)"
  by (auto simp: NewConfigManager_def DefaultConfigPath_def Let_def split: sum.splits)

theorem NewConfigManager_path_witness:
  "NewConfigManager (homedir_Expand (Some ''/home/alice'')) [] =
     Inr \<lparr> configPath = ''/home/alice/.saml2aws'' \<rparr> \<and>
   NewConfigManager (homedir_Expand (Some ''/home/alice'')) ''~/accounts.ini'' =
     Inr \<lparr> configPath = ''/home/alice/accounts.ini'' \<rparr> \<and>
   NewConfigManager (homedir_Expand None) ''/etc/saml2aws.ini'' =
     Inr \<lparr> configPath = ''/etc/saml2aws.ini'' \<rparr> \<and>
   NewConfigManager (homedir_Expand None) [] =
     Inl (Foreign ''home directory cannot be determined'')"
proof -
  have 1: "homedir_Expand (Some ''/home/alice'') ''~/.saml2aws'' = Inr ''/home/alice/.saml2aws''"
    by (simp add: homedir_Expand_def)
  have 2: "homedir_Expand (Some ''/home/alice'') ''~/accounts.ini'' = Inr ''/home/alice/accounts.ini''"
    by (simp add: homedir_Expand_def)
  have 3: "homedir_Expand None ''/etc/saml2aws.ini'' = Inr ''/etc/saml2aws.ini''"
    by (simp add: homedir_Expand_def)
  have 4: "homedir_Expand None ''~/.saml2aws'' = Inl (Foreign ''home directory cannot be determined'')"
    by (simp add: homedir_Expand_def)
  have a: "NewConfigManager (homedir_Expand (Some ''/home/alice'')) [] =
     Inr \<lparr> configPath = ''/home/alice/.saml2aws'' \<rparr>"
    using NewConfigManager_path [of "homedir_Expand (Some ''/home/alice'')" "[]",
        THEN conjunct2, THEN conjunct1] 1
    by simp
  have b: "NewConfigManager (homedir_Expand (Some ''/home/alice'')) ''~/accounts.ini'' =
     Inr \<lparr> configPath = ''/home/alice/accounts.ini'' \<rparr>"
    using NewConfigManager_path [of "homedir_Expand (Some ''/home/alice'')" "''~/accounts.ini''",
        THEN conjunct2, THEN conjunct1] 2
    by simp
  have c: "NewConfigManager (homedir_Expand None) ''/etc/saml2aws.ini'' =
     Inr \<lparr> configPath = ''/etc/saml2aws.ini'' \<rparr>"
    using NewConfigManager_path [of "homedir_Expand None" "''/etc/saml2aws.ini''",
        THEN conjunct2, THEN conjunct1] 3
    by simp
  have d: "NewConfigManager (homedir_Expand None) [] =
     Inl (Foreign ''home directory cannot be determined'')"
    using NewConfigManager_path [of "homedir_Expand None" "[]",
        THEN conjunct2, THEN conjunct2] 4
    by simp
  show ?thesis
    using a b c d by (intro conjI)
qed

section \<open>Saving a valid profile and loading it\<close>

text \<open>
  C1. For every profile \<open>P\<close> that passes \<open>Validate\<close> and every account name: when
  \<open>SaveIDPAccount\<close> of \<open>P\<close> under the name succeeds, \<open>LoadIDPAccount\<close> of the name from the
  file system it leaves returns a profile equal to \<open>P\<close>, field by field; and the save does
  succeed whenever the name is not empty (an account name is a non-empty name), the file is
  missing or can be parsed, and the path can be written.
\<close>

theorem SaveIDPAccount_LoadIDPAccount_roundtrip:
  assumes "Validate url_Parse P = None"
  shows "(SaveIDPAccount url_Parse cm name P fs = (None, fs') \<longrightarrow>
            LoadIDPAccount cm name fs' = Inr P) \<and>
         (name \<noteq> [] \<and> files fs (configPath cm) \<noteq> Malformed \<and> writable fs (configPath cm) \<longrightarrow>
            fst (SaveIDPAccount url_Parse cm name P fs) = None)"
  using assms SaveIDPAccount_then_Load [of url_Parse cm name P fs fs']
    SaveIDPAccount_succeeds [of url_Parse P name fs cm]
  by blast

theorem SaveIDPAccount_LoadIDPAccount_roundtrip_witness:
  "Validate (\<lambda>u. Inr ())
       (NewIDPAccount\<lparr> URL := ''https://x.example/sso'', Provider := ''Ping'', MFA := ''Auto'' \<rparr>) = None \<and>
   SaveIDPAccount (\<lambda>u. Inr ()) \<lparr> configPath = ''/cfg'' \<rparr> ''test''
       (NewIDPAccount\<lparr> URL := ''https://x.example/sso'', Provider := ''Ping'', MFA := ''Auto'' \<rparr>)
       \<lparr> files = (\<lambda>p. Missing), writable = (\<lambda>p. True) \<rparr> =
     (None, \<lparr> files = (\<lambda>p. Missing)(''/cfg'' := Stored
        [(''test'', [(''app_id'', []), (''url'', ''https://x.example/sso''), (''username'', []),
           (''provider'', ''Ping''), (''mfa'', ''Auto''), (''skip_verify'', ''false''),
           (''timeout'', ''0''), (''aws_urn'', ''urn:amazon:webservices''),
           (''aws_session_duration'', ''3600''), (''aws_profile'', ''saml''),
           (''subdomain'', []), (''role_arn'', [])])]), writable = (\<lambda>p. True) \<rparr>) \<and>
   LoadIDPAccount \<lparr> configPath = ''/cfg'' \<rparr> ''test''
       \<lparr> files = (\<lambda>p. Missing)(''/cfg'' := Stored
        [(''test'', [(''app_id'', []), (''url'', ''https://x.example/sso''), (''username'', []),
           (''provider'', ''Ping''), (''mfa'', ''Auto''), (''skip_verify'', ''false''),
           (''timeout'', ''0''), (''aws_urn'', ''urn:amazon:webservices''),
           (''aws_session_duration'', ''3600''), (''aws_profile'', ''saml''),
           (''subdomain'', []), (''role_arn'', [])])]), writable = (\<lambda>p. True) \<rparr> =
     Inr (NewIDPAccount\<lparr> URL := ''https://x.example/sso'', Provider := ''Ping'', MFA := ''Auto'' \<rparr>)"
proof -
  let ?P = "NewIDPAccount\<lparr> URL := ''https://x.example/sso'', Provider := ''Ping'', MFA := ''Auto'' \<rparr>"
  let ?cm = "\<lparr> configPath = ''/cfg'' \<rparr>"
  let ?fs = "\<lparr> files = (\<lambda>p. Missing), writable = (\<lambda>p. True) \<rparr>"
  let ?fs' = "\<lparr> files = (\<lambda>p. Missing)(''/cfg'' := Stored
        [(''test'', [(''app_id'', []), (''url'', ''https://x.example/sso''), (''username'', []),
           (''provider'', ''Ping''), (''mfa'', ''Auto''), (''skip_verify'', ''false''),
           (''timeout'', ''0''), (''aws_urn'', ''urn:amazon:webservices''),
           (''aws_session_duration'', ''3600''), (''aws_profile'', ''saml''),
           (''subdomain'', []), (''role_arn'', [])])]), writable = (\<lambda>p. True) \<rparr>"
  have v: "Validate (\<lambda>u. Inr ()) ?P = None"
    by (simp add: Validate_def NewIDPAccount_def DefaultProfile_def)
  have s: "SaveIDPAccount (\<lambda>u. Inr ()) ?cm ''test'' ?P ?fs = (None, ?fs')"
    by (simp add: SaveIDPAccount_def Validate_def NewIDPAccount_def DefaultProfile_def
        DefaultAmazonWebservicesURN_def DefaultSessionDuration_def LoadSources_def
        NewSection_def ReflectFrom_def Section_def writeFrom_def field_table_def SaveTo_def
        FormatBool_def FormatInt_def FormatUint.simps digit_char_def)
  have l: "LoadIDPAccount ?cm ''test'' ?fs' = Inr ?P"
    using SaveIDPAccount_LoadIDPAccount_roundtrip [OF v, of ?cm "''test''" ?fs ?fs'] s
    by blast
  show ?thesis
    using v s l by (intro conjI)
qed

section \<open>Saving twice\<close>

text \<open>
  C8. Saving is idempotent on the stored state. For every valid profile \<open>P\<close>, whenever the
  name is not empty, the file is missing or can be parsed, and the path can be written:
  the first save of \<open>P\<close> under the name succeeds and writes, the second save of \<open>P\<close> under
  that name, run on the file system the first one left, succeeds too and leaves that file
  system exactly as it was (the section is written over, no second section is added), and
  loading the name after the two saves returns \<open>P\<close>. The same holds after any first save
  that succeeded.
\<close>

theorem SaveIDPAccount_twice:
  assumes "Validate url_Parse P = None"
  shows "(name \<noteq> [] \<and> files fs (configPath cm) \<noteq> Malformed \<and> writable fs (configPath cm) \<longrightarrow>
            fst (SaveIDPAccount url_Parse cm name P fs) = None \<and>
            SaveIDPAccount url_Parse cm name P (snd (SaveIDPAccount url_Parse cm name P fs)) =
              (None, snd (SaveIDPAccount url_Parse cm name P fs)) \<and>
            LoadIDPAccount cm name
              (snd (SaveIDPAccount url_Parse cm name P
                 (snd (SaveIDPAccount url_Parse cm name P fs)))) = Inr P) \<and>
         (SaveIDPAccount url_Parse cm name P fs = (None, fs1) \<longrightarrow>
            SaveIDPAccount url_Parse cm name P fs1 = (None, fs1) \<and>
            LoadIDPAccount cm name (snd (SaveIDPAccount url_Parse cm name P fs1)) = Inr P)"
proof -
  have twice: "SaveIDPAccount url_Parse cm name P fs' = (None, fs') \<and>
      LoadIDPAccount cm name (snd (SaveIDPAccount url_Parse cm name P fs')) = Inr P"
    if first: "SaveIDPAccount url_Parse cm name P fs = (None, fs')" for fs'
  proof -
    have again: "SaveIDPAccount url_Parse cm name P fs' = (None, fs')"
      using first by (rule SaveIDPAccount_again)
    have "LoadIDPAccount cm name fs' = Inr P"
      using first by (rule SaveIDPAccount_then_Load)
    then show ?thesis
      using again by simp
  qed
  have healthy: "fst (SaveIDPAccount url_Parse cm name P fs) = None \<and>
      SaveIDPAccount url_Parse cm name P (snd (SaveIDPAccount url_Parse cm name P fs)) =
        (None, snd (SaveIDPAccount url_Parse cm name P fs)) \<and>
      LoadIDPAccount cm name
        (snd (SaveIDPAccount url_Parse cm name P
           (snd (SaveIDPAccount url_Parse cm name P fs)))) = Inr P"
    if ok: "name \<noteq> [] \<and> files fs (configPath cm) \<noteq> Malformed \<and> writable fs (configPath cm)"
  proof -
    have ret: "fst (SaveIDPAccount url_Parse cm name P fs) = None"
      using assms ok by (simp add: SaveIDPAccount_succeeds)
    then have "SaveIDPAccount url_Parse cm name P fs =
        (None, snd (SaveIDPAccount url_Parse cm name P fs))"
      by (simp add: prod_eq_iff)
    then show ?thesis
      using ret twice by blast
  qed
  show ?thesis
    using healthy twice by blast
qed

theorem SaveIDPAccount_twice_witness:
  "SaveIDPAccount (\<lambda>u. Inr ()) \<lparr> configPath = ''/cfg'' \<rparr> ''work''
       (NewIDPAccount\<lparr> AppID := ''123456'', URL := ''https://idp.example.com/sso'',
          Username := ''alice'', Provider := ''OneLogin'', MFA := ''Auto'', SkipVerify := True,
          Timeout := 30, Subdomain := ''acme'' \<rparr>)
       \<lparr> files = (\<lambda>p. Missing)(''/cfg'' := Stored
           [(''home'', [(''provider'', ''Ping'')]),
            (''work'', [(''url'', ''https://old.example.com'')])]),
         writable = (\<lambda>p. True) \<rparr> =
     (None,
       \<lparr> files = (\<lambda>p. Missing)(''/cfg'' := Stored
           [(''home'', [(''provider'', ''Ping'')]),
            (''work'', [(''url'', ''https://idp.example.com/sso''),
               (''app_id'', ''123456''), (''username'', ''alice''), (''provider'', ''OneLogin''),
               (''mfa'', ''Auto''), (''skip_verify'', ''true''), (''timeout'', ''30''),
               (''aws_urn'', ''urn:amazon:webservices''), (''aws_session_duration'', ''3600''),
               (''aws_profile'', ''saml''), (''subdomain'', ''acme''), (''role_arn'', [])])]),
         writable = (\<lambda>p. True) \<rparr>) \<and>
   SaveIDPAccount (\<lambda>u. Inr ()) \<lparr> configPath = ''/cfg'' \<rparr> ''work''
       (NewIDPAccount\<lparr> AppID := ''123456'', URL := ''https://idp.example.com/sso'',
          Username := ''alice'', Provider := ''OneLogin'', MFA := ''Auto'', SkipVerify := True,
          Timeout := 30, Subdomain := ''acme'' \<rparr>)
       \<lparr> files = (\<lambda>p. Missing)(''/cfg'' := Stored
           [(''home'', [(''provider'', ''Ping'')]),
            (''work'', [(''url'', ''https://idp.example.com/sso''),
               (''app_id'', ''123456''), (''username'', ''alice''), (''provider'', ''OneLogin''),
               (''mfa'', ''Auto''), (''skip_verify'', ''true''), (''timeout'', ''30''),
               (''aws_urn'', ''urn:amazon:webservices''), (''aws_session_duration'', ''3600''),
               (''aws_profile'', ''saml''), (''subdomain'', ''acme''), (''role_arn'', [])])]),
         writable = (\<lambda>p. True) \<rparr> =
     (None,
       \<lparr> files = (\<lambda>p. Missing)(''/cfg'' := Stored
           [(''home'', [(''provider'', ''Ping'')]),
            (''work'', [(''url'', ''https://idp.example.com/sso''),
               (''app_id'', ''123456''), (''username'', ''alice''), (''provider'', ''OneLogin''),
               (''mfa'', ''Auto''), (''skip_verify'', ''true''), (''timeout'', ''30''),
               (''aws_urn'', ''urn:amazon:webservices''), (''aws_session_duration'', ''3600''),
               (''aws_profile'', ''saml''), (''subdomain'', ''acme''), (''role_arn'', [])])]),
         writable = (\<lambda>p. True) \<rparr>) \<and>
   LoadIDPAccount \<lparr> configPath = ''/cfg'' \<rparr> ''work''
       \<lparr> files = (\<lambda>p. Missing)(''/cfg'' := Stored
           [(''home'', [(''provider'', ''Ping'')]),
            (''work'', [(''url'', ''https://idp.example.com/sso''),
               (''app_id'', ''123456''), (''username'', ''alice''), (''provider'', ''OneLogin''),
               (''mfa'', ''Auto''), (''skip_verify'', ''true''), (''timeout'', ''30''),
               (''aws_urn'', ''urn:amazon:webservices''), (''aws_session_duration'', ''3600''),
               (''aws_profile'', ''saml''), (''subdomain'', ''acme''), (''role_arn'', [])])]),
         writable = (\<lambda>p. True) \<rparr> =
     Inr (NewIDPAccount\<lparr> AppID := ''123456'', URL := ''https://idp.example.com/sso'',
          Username := ''alice'', Provider := ''OneLogin'', MFA := ''Auto'', SkipVerify := True,
          Timeout := 30, Subdomain := ''acme'' \<rparr>)"
proof -
  let ?P = "NewIDPAccount\<lparr> AppID := ''123456'', URL := ''https://idp.example.com/sso'',
          Username := ''alice'', Provider := ''OneLogin'', MFA := ''Auto'', SkipVerify := True,
          Timeout := 30, Subdomain := ''acme'' \<rparr>"
  let ?cm = "\<lparr> configPath = ''/cfg'' \<rparr>"
  let ?fs = "\<lparr> files = (\<lambda>p. Missing)(''/cfg'' := Stored
           [(''home'', [(''provider'', ''Ping'')]),
            (''work'', [(''url'', ''https://old.example.com'')])]),
         writable = (\<lambda>p. True) \<rparr>"
  let ?fs1 = "\<lparr> files = (\<lambda>p. Missing)(''/cfg'' := Stored
           [(''home'', [(''provider'', ''Ping'')]),
            (''work'', [(''url'', ''https://idp.example.com/sso''),
               (''app_id'', ''123456''), (''username'', ''alice''), (''provider'', ''OneLogin''),
               (''mfa'', ''Auto''), (''skip_verify'', ''true''), (''timeout'', ''30''),
               (''aws_urn'', ''urn:amazon:webservices''), (''aws_session_duration'', ''3600''),
               (''aws_profile'', ''saml''), (''subdomain'', ''acme''), (''role_arn'', [])])]),
         writable = (\<lambda>p. True) \<rparr>"
  have v: "Validate (\<lambda>u. Inr ()) ?P = None"
    by (simp add: Validate_def NewIDPAccount_def DefaultProfile_def)
  have ok: "''work'' \<noteq> [] \<and> files ?fs (configPath ?cm) \<noteq> Malformed \<and>
            writable ?fs (configPath ?cm)"
    by simp
  have s: "SaveIDPAccount (\<lambda>u. Inr ()) ?cm ''work'' ?P ?fs = (None, ?fs1)"
    by (simp add: SaveIDPAccount_def Validate_def NewIDPAccount_def DefaultProfile_def
        DefaultAmazonWebservicesURN_def DefaultSessionDuration_def LoadSources_def
        NewSection_def ReflectFrom_def Section_def writeFrom_def field_table_def SaveTo_def
        FormatBool_def FormatInt_def FormatUint.simps digit_char_def)
  have sn: "snd (SaveIDPAccount (\<lambda>u. Inr ()) ?cm ''work'' ?P ?fs) = ?fs1"
    by (simp only: s snd_conv)
  note t = SaveIDPAccount_twice [OF v, of "''work''" ?fs ?cm ?fs1, THEN conjunct1, rule_format, OF ok]
  have again: "SaveIDPAccount (\<lambda>u. Inr ()) ?cm ''work'' ?P ?fs1 = (None, ?fs1)"
    using t [THEN conjunct2, THEN conjunct1] by (simp only: sn)
  have "LoadIDPAccount ?cm ''work''
      (snd (SaveIDPAccount (\<lambda>u. Inr ()) ?cm ''work'' ?P ?fs1)) = Inr ?P"
    using t [THEN conjunct2, THEN conjunct2] by (simp only: sn)
  then have l: "LoadIDPAccount ?cm ''work'' ?fs1 = Inr ?P"
    by (simp only: again snd_conv)
  show ?thesis
    using s again l by (intro conjI)
qed

section \<open>Loading a name that was never saved\<close>

text \<open>
  C5. For an account name that was never saved, that is when the configuration file is
  missing or holds no section of that name, \<open>LoadIDPAccount\<close> does not fail: it returns
  exactly the freshly defaulted profile.
\<close>

theorem LoadIDPAccount_never_saved:
  "(files fs (configPath cm) = Missing \<longrightarrow> LoadIDPAccount cm name fs = Inr NewIDPAccount) \<and>
   (files fs (configPath cm) = Stored cfg \<and> map_of cfg name = None \<longrightarrow>
      LoadIDPAccount cm name fs = Inr NewIDPAccount)"
  by (simp add: LoadIDPAccount_def LoadSources_def readAccount_absent)

theorem LoadIDPAccount_never_saved_witness:
  "LoadIDPAccount \<lparr> configPath = ''/cfg'' \<rparr> ''work''
       \<lparr> files = (\<lambda>p. Missing), writable = (\<lambda>p. True) \<rparr> = Inr NewIDPAccount \<and>
   LoadIDPAccount \<lparr> configPath = ''/cfg'' \<rparr> ''work''
       \<lparr> files = (\<lambda>p. Missing)(''/cfg'' := Stored
           [(''home'', [(''provider'', ''Ping''), (''mfa'', ''Auto'')])]),
         writable = (\<lambda>p. True) \<rparr> = Inr NewIDPAccount"
proof -
  let ?cm = "\<lparr> configPath = ''/cfg'' \<rparr>"
  let ?fs = "\<lparr> files = (\<lambda>p. Missing), writable = (\<lambda>p. True) \<rparr>"
  let ?cfg = "[(''home'', [(''provider'', ''Ping''), (''mfa'', ''Auto'')])]"
  let ?fs' = "\<lparr> files = (\<lambda>p. Missing)(''/cfg'' := Stored ?cfg), writable = (\<lambda>p. True) \<rparr>"
  have m: "files ?fs (configPath ?cm) = Missing"
    by simp
  have c: "files ?fs' (configPath ?cm) = Stored ?cfg \<and> map_of ?cfg ''work'' = None"
    by simp
  have 1: "LoadIDPAccount ?cm ''work'' ?fs = Inr NewIDPAccount"
    using LoadIDPAccount_never_saved [of ?fs ?cm "''work''" "[]"] m by blast
  have 2: "LoadIDPAccount ?cm ''work'' ?fs' = Inr NewIDPAccount"
    using LoadIDPAccount_never_saved [of ?fs' ?cm "''work''" ?cfg] c by blast
  show ?thesis
    using 1 2 by (rule conjI)
qed

section \<open>A valid profile is never reported as not found\<close>

text \<open>
  C10. Every profile that passes \<open>Validate\<close> differs from the freshly defaulted profile;
  so after a successful save of a validated profile \<open>P\<close> under a name,
  \<open>LoadVerifyIDPAccount\<close> of that name does not return the sentinel
  \<open>ErrIdpAccountNotFound\<close>: it returns \<open>P\<close>.
\<close>

theorem Validate_excludes_not_found:
  assumes "Validate url_Parse P = None"
  shows "P \<noteq> NewIDPAccount \<and>
         (SaveIDPAccount url_Parse cm name P fs = (None, fs') \<longrightarrow>
            LoadVerifyIDPAccount cm name fs' = Inr P \<and>
            LoadVerifyIDPAccount cm name fs' \<noteq> Inl ErrIdpAccountNotFound)"
proof -
  have d: "P \<noteq> NewIDPAccount"
    using assms by (rule Validate_not_default)
  have "LoadVerifyIDPAccount cm name fs' = Inr P"
    if "SaveIDPAccount url_Parse cm name P fs = (None, fs')"
    using SaveIDPAccount_then_Load [OF that] d by (simp add: LoadVerify_of_Load)
  then show ?thesis
    using d by auto
qed

theorem Validate_excludes_not_found_witness:
  "NewIDPAccount\<lparr> URL := ''https://idp.example.com'', Provider := ''Okta'', MFA := ''PUSH'',
       SessionDuration := 7200, Profile := ''dev'',
       RoleARN := ''arn:aws:iam::123456789012:role/dev'' \<rparr> \<noteq> NewIDPAccount \<and>
   SaveIDPAccount (\<lambda>u. Inr ()) \<lparr> configPath = ''/cfg'' \<rparr> ''dev''
       (NewIDPAccount\<lparr> URL := ''https://idp.example.com'', Provider := ''Okta'', MFA := ''PUSH'',
          SessionDuration := 7200, Profile := ''dev'',
          RoleARN := ''arn:aws:iam::123456789012:role/dev'' \<rparr>)
       \<lparr> files = (\<lambda>p. Missing), writable = (\<lambda>p. True) \<rparr> =
     (None, \<lparr> files = (\<lambda>p. Missing)(''/cfg'' := Stored
        [(''dev'', [(''app_id'', []), (''url'', ''https://idp.example.com''), (''username'', []),
           (''provider'', ''Okta''), (''mfa'', ''PUSH''), (''skip_verify'', ''false''),
           (''timeout'', ''0''), (''aws_urn'', ''urn:amazon:webservices''),
           (''aws_session_duration'', ''7200''), (''aws_profile'', ''dev''),
           (''subdomain'', []), (''role_arn'', ''arn:aws:iam::123456789012:role/dev'')])]),
        writable = (\<lambda>p. True) \<rparr>) \<and>
   LoadVerifyIDPAccount \<lparr> configPath = ''/cfg'' \<rparr> ''dev''
       \<lparr> files = (\<lambda>p. Missing)(''/cfg'' := Stored
        [(''dev'', [(''app_id'', []), (''url'', ''https://idp.example.com''), (''username'', []),
           (''provider'', ''Okta''), (''mfa'', ''PUSH''), (''skip_verify'', ''false''),
           (''timeout'', ''0''), (''aws_urn'', ''urn:amazon:webservices''),
           (''aws_session_duration'', ''7200''), (''aws_profile'', ''dev''),
           (''subdomain'', []), (''role_arn'', ''arn:aws:iam::123456789012:role/dev'')])]),
        writable = (\<lambda>p. True) \<rparr> =
     Inr (NewIDPAccount\<lparr> URL := ''https://idp.example.com'', Provider := ''Okta'', MFA := ''PUSH'',
          SessionDuration := 7200, Profile := ''dev'',
          RoleARN := ''arn:aws:iam::123456789012:role/dev'' \<rparr>)"
proof -
  let ?P = "NewIDPAccount\<lparr> URL := ''https://idp.example.com'', Provider := ''Okta'', MFA := ''PUSH'',
          SessionDuration := 7200, Profile := ''dev'',
          RoleARN := ''arn:aws:iam::123456789012:role/dev'' \<rparr>"
  let ?cm = "\<lparr> configPath = ''/cfg'' \<rparr>"
  let ?fs = "\<lparr> files = (\<lambda>p. Missing), writable = (\<lambda>p. True) \<rparr>"
  let ?fs' = "\<lparr> files = (\<lambda>p. Missing)(''/cfg'' := Stored
        [(''dev'', [(''app_id'', []), (''url'', ''https://idp.example.com''), (''username'', []),
           (''provider'', ''Okta''), (''mfa'', ''PUSH''), (''skip_verify'', ''false''),
           (''timeout'', ''0''), (''aws_urn'', ''urn:amazon:webservices''),
           (''aws_session_duration'', ''7200''), (''aws_profile'', ''dev''),
           (''subdomain'', []), (''role_arn'', ''arn:aws:iam::123456789012:role/dev'')])]),
        writable = (\<lambda>p. True) \<rparr>"
  have v: "Validate (\<lambda>u. Inr ()) ?P = None"
    by (simp add: Validate_def NewIDPAccount_def)
  have s: "SaveIDPAccount (\<lambda>u. Inr ()) ?cm ''dev'' ?P ?fs = (None, ?fs')"
    by (simp add: SaveIDPAccount_def Validate_def NewIDPAccount_def DefaultProfile_def
        DefaultAmazonWebservicesURN_def DefaultSessionDuration_def LoadSources_def
        NewSection_def ReflectFrom_def Section_def writeFrom_def field_table_def SaveTo_def
        FormatBool_def FormatInt_def FormatUint.simps digit_char_def)
  note t = Validate_excludes_not_found [OF v, of ?cm "''dev''" ?fs ?fs']
  have d: "?P \<noteq> NewIDPAccount"
    using t by (rule conjunct1)
  have l: "LoadVerifyIDPAccount ?cm ''dev'' ?fs' = Inr ?P"
    using t s by blast
  show ?thesis
    using d s l by (intro conjI)
qed

end
